theory Spec2Isabelle
  imports Main
begin

section \<open>Go strings and the library functions the package calls\<close>

text \<open>
  A Go string is a sequence of bytes, modelled as \<^typ>\<open>string\<close> (a list of 8-bit
  characters). The package calls a handful of functions of the Go standard library;
  their behaviour on the arguments the package passes is written out here.
\<close>

definition NEWLINE :: char where
  "NEWLINE = CHR 0x0A"

definition TAB :: char where
  "TAB = CHR 0x09"

text \<open>\<^verbatim>\<open>_SPACE_CHARS = " \t\n"\<close>, \<^verbatim>\<open>_KV_SEP = ':'\<close>, \<^verbatim>\<open>_DEFAULT_SEP = ' '\<close> and the
  other constants of the \<^verbatim>\<open>const\<close> blocks.\<close>

definition SPACE_CHARS :: string where
  "SPACE_CHARS = [CHR '' '', TAB, NEWLINE]"

definition KV_SEP :: char where
  "KV_SEP = CHR '':''"

definition DEFAULT_SEP :: char where
  "DEFAULT_SEP = CHR '' ''"

definition ARRAY_TAG :: char where
  "ARRAY_TAG = CHR ''@''"

definition MAP_TAG :: char where
  "MAP_TAG = CHR ''$''"

definition COMPOSITE_LEFT :: char where
  "COMPOSITE_LEFT = CHR ''[''"

definition COMPOSITE_RIGHT :: char where
  "COMPOSITE_RIGHT = CHR '']''"

definition SECTION_LEFT :: char where
  "SECTION_LEFT = CHR ''[''"

definition SECTION_RIGHT :: char where
  "SECTION_RIGHT = CHR '']''"

definition COMMENT_TAG :: char where
  "COMMENT_TAG = CHR ''#''"

definition GLOBAL :: string where
  "GLOBAL = ''__global__''"

text \<open>\<^verbatim>\<open>strings.TrimLeft\<close>, \<^verbatim>\<open>strings.TrimRight\<close> and \<^verbatim>\<open>strings.Trim\<close> with a cutset of
  ASCII characters: the bytes of the cutset are removed from the ends.\<close>

definition TrimLeft :: "string \<Rightarrow> string \<Rightarrow> string" where
  "TrimLeft s cutset = dropWhile (\<lambda>c. c \<in> set cutset) s"

definition TrimRight :: "string \<Rightarrow> string \<Rightarrow> string" where
  "TrimRight s cutset = rev (dropWhile (\<lambda>c. c \<in> set cutset) (rev s))"

definition Trim :: "string \<Rightarrow> string \<Rightarrow> string" where
  "Trim s cutset = TrimRight (TrimLeft s cutset) cutset"

text \<open>
  \<^verbatim>\<open>string(b)\<close> for a byte \<open>b\<close> is the UTF-8 encoding of the code point \<open>b\<close>: the byte
  itself below \<open>0x80\<close>, two bytes from there on.
\<close>

definition string_of_byte :: "char \<Rightarrow> string" where
  "string_of_byte b =
     (let n = (of_char b :: nat) in
      if n < 128 then [b]
      else [char_of (192 + n div 64), char_of (128 + n mod 64)])"

text \<open>
  \<^verbatim>\<open>strings.Split\<close> and \<^verbatim>\<open>strings.SplitN\<close> share one loop (\<^verbatim>\<open>genSplit\<close>): the text is cut
  at each occurrence of the separator, left to right, until only one more piece may be
  produced; the last piece is the unsplit rest. \<open>acc\<close> holds the piece being read and
  \<open>n\<close> the number of pieces still allowed. The separator is not empty at any call of
  the package (it is always the string of one byte); an empty separator cuts nothing
  here.
\<close>

fun genSplit :: "string \<Rightarrow> string \<Rightarrow> nat \<Rightarrow> string \<Rightarrow> string list" where
  "genSplit sep acc n [] = [acc]"
| "genSplit sep acc n (c # cs) =
     (if n \<le> 1 then [acc @ c # cs]
      else if sep = [] then genSplit sep (acc @ [c]) n cs
      else if take (length sep) (c # cs) = sep
        then acc # genSplit sep [] (n - 1) (drop (length sep) (c # cs))
      else genSplit sep (acc @ [c]) n cs)"

definition Split :: "string \<Rightarrow> string \<Rightarrow> string list" where
  "Split s sep = genSplit sep [] (Suc (length s)) s"

definition SplitN :: "string \<Rightarrow> string \<Rightarrow> nat \<Rightarrow> string list" where
  "SplitN s sep n = (if n = 0 then [] else genSplit sep [] n s)"

text \<open>\<^verbatim>\<open>strings.LastIndexAny\<close> with ASCII \<open>chars\<close>: the index of the last byte of \<open>s\<close> that
  is one of \<open>chars\<close>, or \<open>-1\<close>.\<close>

definition LastIndexAny :: "string \<Rightarrow> string \<Rightarrow> int" where
  "LastIndexAny s chars =
     (case filter (\<lambda>i. s ! i \<in> set chars) (rev [0..<length s]) of
        [] \<Rightarrow> - 1
      | i # _ \<Rightarrow> int i)"

text \<open>
  \<^verbatim>\<open>bufio.Reader.ReadString('\n')\<close>, called until the input is used up: each call gives
  the text up to and including the next newline, the last one what is left when the
  input does not end in a newline. The loop of \<^verbatim>\<open>Parse\<close> ends on the call that returns
  nothing, so it sees exactly the lines \<open>ReadLines [] text\<close>. The reader is over a file or
  a buffer; a read that fails for another reason than the end of the input is not
  modelled.
\<close>

fun ReadLines :: "string \<Rightarrow> string \<Rightarrow> string list" where
  "ReadLines line [] = (if line = [] then [] else [line])"
| "ReadLines line (c # cs) =
     (if c = NEWLINE then (line @ [c]) # ReadLines [] cs else ReadLines (line @ [c]) cs)"

subsection \<open>Kinds of package \<^verbatim>\<open>reflect\<close>\<close>

text \<open>\<^verbatim>\<open>reflect.Kind\<close>, the kind of type a value has.\<close>

datatype kind =
    KInvalid | KBool
  | KInt | KInt8 | KInt16 | KInt32 | KInt64
  | KUint | KUint8 | KUint16 | KUint32 | KUint64 | KUintptr
  | KFloat32 | KFloat64 | KComplex64 | KComplex128
  | KArray | KChan | KFunc | KInterface | KMap | KPointer
  | KSlice | KString | KStruct | KUnsafePointer

subsection \<open>Errors\<close>

text \<open>
  Every error value and every run-time panic of the modelled code is a constructor.
  \<open>WrapErr\<close> is \<^verbatim>\<open>goutils.WrapErr\<close>, which returns an error that carries the one it is
  given.
\<close>

datatype error =
    ErrSyntax string                \<comment> \<open>\<^verbatim>\<open>strconv.ErrSyntax\<close>, with the text parsed\<close>
  | ErrRange string                 \<comment> \<open>\<^verbatim>\<open>strconv.ErrRange\<close>, with the text parsed\<close>
  | NotAnArray string               \<comment> \<open>"item is not a Array, key: ..."\<close>
  | NotFoundArrayTag                \<comment> \<open>"not found Array Tag: @"\<close>
  | SepOneChar                      \<comment> \<open>"Array Sep can only set to one char"\<close>
  | SectionExists string            \<comment> \<open>"section '...' already exist"\<close>
  | NeedColon string                \<comment> \<open>"need ':' in a line, line: ..."\<close>
  | EmptyValue                      \<comment> \<open>"an empty value"\<close>
  | NonExistItem string             \<comment> \<open>"non-exist item: ..."\<close>
  | NoSection string                \<comment> \<open>"no section '...'"\<close>
  | OpenFailed                      \<comment> \<open>the error of \<^verbatim>\<open>os.Open\<close>\<close>
  | ErrFloat string                 \<comment> \<open>the error of \<^verbatim>\<open>strconv.ParseFloat\<close>, with the text parsed\<close>
  | ObjNotSettable                  \<comment> \<open>"configObj must be settable"\<close>
  | FieldNotSettable string         \<comment> \<open>"field not settable, field: ..."\<close>
  | NotSupportType kind             \<comment> \<open>"not support type: ..."\<close>
  | NotSupportElem                  \<comment> \<open>"not support element type for slice"\<close>
  | WrapErr error
  | PanicIndexOutOfRange            \<comment> \<open>run-time panic: index out of range\<close>
  | PanicNilMap                     \<comment> \<open>run-time panic: assignment to entry in nil map\<close>
  | PanicReflect                    \<comment> \<open>panic raised by package \<^verbatim>\<open>reflect\<close>\<close>

subsection \<open>\<^verbatim>\<open>strconv.ParseInt(s, 10, 64)\<close>\<close>

definition is_digit :: "char \<Rightarrow> bool" where
  "is_digit c = ((48 :: nat) \<le> of_char c \<and> (of_char c :: nat) \<le> 57)"

definition digit_val :: "char \<Rightarrow> int" where
  "digit_val c = of_char c - 48"

text \<open>The largest \<^verbatim>\<open>uint64\<close>, \<open>2 ^ 64 - 1\<close>, and the bound \<open>2 ^ 63\<close> of \<^verbatim>\<open>int64\<close>.\<close>

definition maxUint64 :: int where
  "maxUint64 = 18446744073709551615"

definition cutoffInt64 :: int where
  "cutoffInt64 = 9223372036854775808"

text \<open>
  The loop of \<^verbatim>\<open>ParseUint\<close> for base 10 and 64 bits, on unbounded integers with the
  overflow tests written out: a byte that is not a digit is a syntax error, a value
  beyond \<open>maxUint64\<close> a range error; whichever comes first in the text is reported.
\<close>

fun ParseUint_loop :: "string \<Rightarrow> int \<Rightarrow> string \<Rightarrow> error + int" where
  "ParseUint_loop s0 n [] = Inr n"
| "ParseUint_loop s0 n (c # cs) =
     (if \<not> is_digit c then Inl (ErrSyntax s0)
      else if n \<ge> maxUint64 div 10 + 1 then Inl (ErrRange s0)
      else if n * 10 + digit_val c > maxUint64 then Inl (ErrRange s0)
      else ParseUint_loop s0 (n * 10 + digit_val c) cs)"

definition ParseUint :: "string \<Rightarrow> string \<Rightarrow> error + int" where
  "ParseUint s0 s = (if s = [] then Inl (ErrSyntax s0) else ParseUint_loop s0 0 s)"

text \<open>\<^verbatim>\<open>ParseInt\<close>: an optional sign, then \<^verbatim>\<open>ParseUint\<close>, then the check against the
  range of \<^verbatim>\<open>int64\<close>.\<close>

definition ParseInt :: "string \<Rightarrow> error + int" where
  "ParseInt s =
     (if s = [] then Inl (ErrSyntax s)
      else
        let neg = (hd s = CHR ''-'');
            body = (if hd s = CHR ''+'' \<or> hd s = CHR ''-'' then tl s else s)
        in case ParseUint s body of
             Inl e \<Rightarrow> Inl e
           | Inr un \<Rightarrow>
               if \<not> neg \<and> un \<ge> cutoffInt64 then Inl (ErrRange s)
               else if neg \<and> un > cutoffInt64 then Inl (ErrRange s)
               else Inr (if neg then - un else un))"

section \<open>Items that keep their raw key (src/unnamed/part\_000)\<close>

text \<open>
  In this revision an item is \<^verbatim>\<open>Item{rawKey, val, key}\<close>; whether it is an array, and
  the separator of its elements, are read off \<open>rawKey\<close> at every access.
\<close>

record Item_v1 =
  rawKey :: string
  val_v1 :: string
  key_v1 :: string

text \<open>
  \<^verbatim>\<open>ToStringArray\<close>. The condition of the first \<^verbatim>\<open>if\<close> is evaluated left to right and
  indexes \<open>rawKey\<close> before it looks at the length, so each index is a branch here: an
  index out of range is the panic Go raises.
\<close>

definition ToStringArray_v1 :: "Item_v1 \<Rightarrow> error + string list" where
  "ToStringArray_v1 item =
     (let k = rawKey item; keyLen = length k in
      if keyLen = 0 then Inl PanicIndexOutOfRange
      else if k ! 0 \<noteq> COMPOSITE_LEFT then Inl (NotAnArray k)
      else if k ! (keyLen - 1) \<noteq> COMPOSITE_RIGHT then Inl (NotAnArray k)
      else if keyLen < 2 then Inl PanicIndexOutOfRange
      else if k ! 1 \<noteq> ARRAY_TAG then Inl (NotAnArray k)
      else if keyLen < 4 then Inl (NotAnArray k)
      else
        let sepIdx = LastIndexAny k [ARRAY_TAG] in
        if sepIdx = - 1 then Inl NotFoundArrayTag
        else if sepIdx = 1 then Inr (Split (val_v1 item) (string_of_byte DEFAULT_SEP))
        else if sepIdx \<noteq> int keyLen - 3 then Inl SepOneChar
        else Inr (Split (val_v1 item) (string_of_byte (k ! nat (sepIdx + 1)))))"

text \<open>The loop of \<^verbatim>\<open>ToIntArray\<close>: each element is trimmed and parsed; the first element
  that does not parse ends the conversion with its error.\<close>

fun parse_ints :: "string list \<Rightarrow> error + int list" where
  "parse_ints [] = Inr []"
| "parse_ints (ele # eles) =
     (case ParseInt (Trim ele SPACE_CHARS) of
        Inl e \<Rightarrow> Inl e
      | Inr v \<Rightarrow> (case parse_ints eles of Inl e \<Rightarrow> Inl e | Inr vs \<Rightarrow> Inr (v # vs)))"

definition ToIntArray_v1 :: "Item_v1 \<Rightarrow> error + int list" where
  "ToIntArray_v1 item =
     (case ToStringArray_v1 item of
        Inl e \<Rightarrow> Inl e
      | Inr eleStr \<Rightarrow> parse_ints eleStr)"

text \<open>\<^verbatim>\<open>parseKey\<close>: the lookup key of a raw key, brackets and markers removed.\<close>

definition parseKey :: "string \<Rightarrow> string" where
  "parseKey k =
     (if length k < 4 then k
      else if k ! 0 \<noteq> COMPOSITE_LEFT then k
      else if k ! (length k - 1) \<noteq> COMPOSITE_RIGHT then k
      else if k ! 1 \<noteq> ARRAY_TAG \<and> k ! 1 \<noteq> MAP_TAG then k
      else
        let c = k ! (length k - 3) in
        if length k \<noteq> 4 \<and> (c = ARRAY_TAG \<or> c = MAP_TAG)
          then take (length k - 3 - 2) (drop 2 k)
        else take (length k - 1 - 2) (drop 2 k))"

text \<open>An item as \<^verbatim>\<open>Parse\<close> builds it from a raw key and a value:
  \<^verbatim>\<open>&Item{rawKey, val, key}\<close> with \<^verbatim>\<open>key := parseKey(rawKey)\<close>.\<close>

definition mkItem_v1 :: "string \<Rightarrow> string \<Rightarrow> Item_v1" where
  "mkItem_v1 rk v = \<lparr>rawKey = rk, val_v1 = v, key_v1 = parseKey rk\<rparr>"

text \<open>
  \<^verbatim>\<open>Conf\<close> of this revision holds one map of items. \<^verbatim>\<open>New\<close> opens the file and \<^verbatim>\<open>Parse\<close> reads
  it line by line; here \<^verbatim>\<open>Parse\<close> is given the text of the file.
\<close>

record Conf_v1 =
  filePath_v1 :: string
  items_v1 :: "string \<rightharpoonup> Item_v1"

definition New_v1 :: "string \<Rightarrow> Conf_v1" where
  "New_v1 path = \<lparr>filePath_v1 = path, items_v1 = Map.empty\<rparr>"

text \<open>One round of the loop of \<^verbatim>\<open>Parse\<close> (the first of the two revisions in the file, which
  reads lines), on the line read.\<close>

definition Parse_line_v1 :: "Conf_v1 \<Rightarrow> string \<Rightarrow> error option \<times> Conf_v1" where
  "Parse_line_v1 conf line =
     (let lineStr = TrimLeft line SPACE_CHARS in
      if length lineStr = 0 then (None, conf)
      else
        let lineStr = (if lineStr ! (length lineStr - 1) = NEWLINE
                       then take (length lineStr - 1) lineStr else lineStr) in
        if length lineStr = 0 then (Some PanicIndexOutOfRange, conf)
        else if lineStr ! 0 = COMMENT_TAG then (None, conf)
        else
          let parts = SplitN lineStr (string_of_byte KV_SEP) 2 in
          if length parts \<noteq> 2 then (Some (NeedColon lineStr), conf)
          else
            let rawKey = Trim (parts ! 0) SPACE_CHARS;
                key = parseKey rawKey;
                val = Trim (parts ! 1) SPACE_CHARS
            in if length val = 0 then (Some EmptyValue, conf)
               else (None, conf\<lparr>items_v1 := (items_v1 conf)
                       (key \<mapsto> \<lparr>rawKey = rawKey, val_v1 = val, key_v1 = key\<rparr>)\<rparr>))"

fun Parse_lines_v1 :: "Conf_v1 \<Rightarrow> string list \<Rightarrow> error option \<times> Conf_v1" where
  "Parse_lines_v1 conf [] = (None, conf)"
| "Parse_lines_v1 conf (line # lines) =
     (case Parse_line_v1 conf line of
        (Some e, conf') \<Rightarrow> (Some e, conf')
      | (None, conf') \<Rightarrow> Parse_lines_v1 conf' lines)"

definition Parse_v1 :: "Conf_v1 \<Rightarrow> string \<Rightarrow> error option \<times> Conf_v1" where
  "Parse_v1 conf text = Parse_lines_v1 conf (ReadLines [] text)"

definition GetItem_v1 :: "Conf_v1 \<Rightarrow> string \<Rightarrow> error + Item_v1" where
  "GetItem_v1 conf k =
     (case items_v1 conf k of None \<Rightarrow> Inl (NonExistItem k) | Some item \<Rightarrow> Inr item)"

definition GetStringArray_v1 :: "Conf_v1 \<Rightarrow> string \<Rightarrow> error + string list" where
  "GetStringArray_v1 conf k =
     (case GetItem_v1 conf k of Inl e \<Rightarrow> Inl e | Inr item \<Rightarrow> ToStringArray_v1 item)"

section \<open>Items and the section store (src/conf.go, src/unnamed/part\_003)\<close>

subsection \<open>What the package takes from outside\<close>

text \<open>
  The package has one package-level variable, \<^verbatim>\<open>elementSep\<close>, set to \<^verbatim>\<open>' '\<close> when the
  package is loaded and changed by \<^verbatim>\<open>SetElementSep\<close>. It calls three library functions
  whose results are not computed here and are taken as given: \<^verbatim>\<open>strconv.ParseFloat\<close>
  (the type \<open>'f\<close> stands for \<^verbatim>\<open>float64\<close>), the conversion of a \<^verbatim>\<open>float64\<close> to \<^verbatim>\<open>float32\<close>
  that \<^verbatim>\<open>reflect.Value.SetFloat\<close> performs on a \<^verbatim>\<open>float32\<close> field, and the Unicode
  case mapping \<^verbatim>\<open>strings.ToLower\<close> applies to a string that is not pure ASCII.
\<close>

record 'f env =
  elementSep :: char
  ParseFloat :: "string \<Rightarrow> error + 'f"
  toFloat32 :: "'f \<Rightarrow> 'f"
  unicodeToLower :: "string \<Rightarrow> string"

text \<open>\<^verbatim>\<open>SetElementSep\<close> and the value \<^verbatim>\<open>init\<close> gives the variable.\<close>

definition SetElementSep :: "char \<Rightarrow> 'f env \<Rightarrow> 'f env" where
  "SetElementSep sep E = E\<lparr>elementSep := sep\<rparr>"

definition init :: "'f env \<Rightarrow> 'f env" where
  "init E = E\<lparr>elementSep := DEFAULT_SEP\<rparr>"

subsection \<open>Items\<close>

text \<open>In this revision an item is \<^verbatim>\<open>Item{key, val}\<close>.\<close>

record Item =
  key :: string
  val :: string

definition ToInt :: "Item \<Rightarrow> error + int" where
  "ToInt item = ParseInt (val item)"

definition ToString :: "Item \<Rightarrow> string" where
  "ToString item = val item"

definition ToFloat :: "'f env \<Rightarrow> Item \<Rightarrow> error + 'f" where
  "ToFloat E item = ParseFloat E (val item)"

text \<open>
  \<^verbatim>\<open>ToStringArray\<close>: the value is split on \<^verbatim>\<open>elementSep\<close>; the loop appends the trimmed
  text of every part that is not the empty string. \<open>eles\<close> is the slice built so far.
\<close>

fun collect_eles :: "string list \<Rightarrow> string list \<Rightarrow> string list" where
  "collect_eles eles [] = eles"
| "collect_eles eles (p # parts) =
     (if p \<noteq> [] then collect_eles (eles @ [Trim p SPACE_CHARS]) parts
      else collect_eles eles parts)"

definition ToStringArray :: "'f env \<Rightarrow> Item \<Rightarrow> string list" where
  "ToStringArray E item =
     collect_eles [] (Split (val item) (string_of_byte (elementSep E)))"

text \<open>\<^verbatim>\<open>ToIntArray\<close> and \<^verbatim>\<open>ToFloatArray\<close>: every element is trimmed again and parsed; an
  element that does not parse ends the conversion with its error, wrapped.\<close>

fun ints_of :: "string list \<Rightarrow> error + int list" where
  "ints_of [] = Inr []"
| "ints_of (ele # eles) =
     (case ParseInt (Trim ele SPACE_CHARS) of
        Inl e \<Rightarrow> Inl (WrapErr e)
      | Inr v \<Rightarrow> (case ints_of eles of Inl e \<Rightarrow> Inl e | Inr vs \<Rightarrow> Inr (v # vs)))"

definition ToIntArray :: "'f env \<Rightarrow> Item \<Rightarrow> error + int list" where
  "ToIntArray E item = ints_of (ToStringArray E item)"

fun floats_of :: "'f env \<Rightarrow> string list \<Rightarrow> error + 'f list" where
  "floats_of E [] = Inr []"
| "floats_of E (ele # eles) =
     (case ParseFloat E (Trim ele SPACE_CHARS) of
        Inl e \<Rightarrow> Inl (WrapErr e)
      | Inr v \<Rightarrow> (case floats_of E eles of Inl e \<Rightarrow> Inl e | Inr vs \<Rightarrow> Inr (v # vs)))"

definition ToFloatArray :: "'f env \<Rightarrow> Item \<Rightarrow> error + 'f list" where
  "ToFloatArray E item = floats_of E (ToStringArray E item)"

subsection \<open>The section store\<close>

text \<open>
  A \<^verbatim>\<open>section\<close> is a Go map, that is a reference: \<^verbatim>\<open>conf.cur\<close> and an entry of
  \<^verbatim>\<open>conf.sections\<close> can be the same map, and an item stored through one is seen through
  the other. The maps therefore live in a store, by address: \<open>heap\<close> holds the map at
  each address and \<open>fresh\<close> is the next address \<^verbatim>\<open>newSection\<close> hands out. A reference is
  an address, or \<open>None\<close> for the nil map (what indexing \<^verbatim>\<open>conf.sections\<close> at a name it
  does not hold gives).
\<close>

type_synonym section_map = "string \<rightharpoonup> Item"

record Conf =
  filePath :: string
  sections :: "string \<rightharpoonup> nat"
  eleSep :: char
  cur :: "nat option"
  heap :: "nat \<Rightarrow> section_map"
  fresh :: nat

text \<open>\<^verbatim>\<open>newSection\<close> on the store of a \<open>Conf\<close>: the address of a new, empty map.\<close>

definition newSection :: "Conf \<Rightarrow> nat \<times> Conf" where
  "newSection conf =
     (fresh conf, conf\<lparr>heap := (heap conf)(fresh conf := Map.empty), fresh := Suc (fresh conf)\<rparr>)"

definition New :: "string \<Rightarrow> Conf" where
  "New path =
     (let conf = \<lparr>filePath = path, sections = Map.empty, eleSep = CHR 0x00, cur = None,
                  heap = (\<lambda>_. Map.empty), fresh = 0\<rparr>;
          (a, conf) = newSection conf;
          conf = conf\<lparr>cur := Some a\<rparr>
      in conf\<lparr>sections := (sections conf)(GLOBAL \<mapsto> a)\<rparr>)"

text \<open>The map \<^verbatim>\<open>conf.cur\<close> refers to; reading the nil map finds nothing.\<close>

definition cur_map :: "Conf \<Rightarrow> section_map" where
  "cur_map conf = (case cur conf of None \<Rightarrow> Map.empty | Some a \<Rightarrow> heap conf a)"

text \<open>\<^verbatim>\<open>isSection\<close>. The caller passes a line that is not empty.\<close>

definition isSection :: "string \<Rightarrow> bool" where
  "isSection line = (line ! 0 = SECTION_LEFT \<and> line ! (length line - 1) = SECTION_RIGHT)"

text \<open>
  One round of the loop of \<^verbatim>\<open>parse\<close> (\<^verbatim>\<open>_parse\<close> in the first revision of the file), on
  the line read. The result is the error returned, if any, and the \<open>Conf\<close> as the round
  leaves it.
\<close>

definition parse_line :: "Conf \<Rightarrow> string \<Rightarrow> error option \<times> Conf" where
  "parse_line conf line =
     (let lineStr = Trim line SPACE_CHARS in
      if length lineStr = 0 then (None, conf)
      else
        let lineStr = (if lineStr ! (length lineStr - 1) = NEWLINE
                       then take (length lineStr - 1) lineStr else lineStr) in
        if length lineStr = 0 then (Some PanicIndexOutOfRange, conf)
        else if lineStr ! 0 = COMMENT_TAG then (None, conf)
        else if isSection lineStr then
          let sectionName = Trim (take (length lineStr - 1 - 1) (drop 1 lineStr)) SPACE_CHARS in
          if sections conf sectionName \<noteq> None
            then (Some (SectionExists sectionName), conf)
          else
            let (a, conf) = newSection conf;
                conf = conf\<lparr>cur := Some a\<rparr>
            in (None, conf\<lparr>sections := (sections conf)(sectionName \<mapsto> a)\<rparr>)
        else
          let parts = SplitN lineStr (string_of_byte KV_SEP) 2 in
          if length parts \<noteq> 2 then (Some (NeedColon lineStr), conf)
          else
            let key = Trim (parts ! 0) SPACE_CHARS;
                val = Trim (parts ! 1) SPACE_CHARS
            in if length val = 0 then (Some EmptyValue, conf)
               else (case cur conf of
                       None \<Rightarrow> (Some PanicNilMap, conf)
                     | Some a \<Rightarrow>
                         (None, conf\<lparr>heap := (heap conf)
                            (a := (heap conf a)(key \<mapsto> \<lparr>key = key, val = val\<rparr>))\<rparr>)))"

fun parse_lines :: "Conf \<Rightarrow> string list \<Rightarrow> error option \<times> Conf" where
  "parse_lines conf [] = (None, conf)"
| "parse_lines conf (line # lines) =
     (case parse_line conf line of
        (Some e, conf') \<Rightarrow> (Some e, conf')
      | (None, conf') \<Rightarrow> parse_lines conf' lines)"

definition parse :: "Conf \<Rightarrow> string \<Rightarrow> error option \<times> Conf" where
  "parse conf text = parse_lines conf (ReadLines [] text)"

text \<open>\<^verbatim>\<open>Parse\<close>: \<open>file\<close> is the text of the file at \<^verbatim>\<open>conf.filePath\<close>, or \<open>None\<close> when the
  file cannot be opened.\<close>

definition Parse :: "Conf \<Rightarrow> string option \<Rightarrow> error option \<times> Conf" where
  "Parse conf file =
     (case file of
        None \<Rightarrow> (Some (WrapErr OpenFailed), conf)
      | Some text \<Rightarrow>
          (case parse conf text of
             (Some e, conf') \<Rightarrow> (Some e, conf')
           | (None, conf') \<Rightarrow> (None, conf'\<lparr>cur := sections conf' GLOBAL\<rparr>)))"

definition GetItem :: "Conf \<Rightarrow> string \<Rightarrow> error + Item" where
  "GetItem conf k =
     (case cur_map conf k of None \<Rightarrow> Inl (NonExistItem k) | Some item \<Rightarrow> Inr item)"

definition HasItem :: "Conf \<Rightarrow> string \<Rightarrow> bool" where
  "HasItem conf k = (cur_map conf k \<noteq> None)"

definition GetInt :: "Conf \<Rightarrow> string \<Rightarrow> error + int" where
  "GetInt conf k =
     (case GetItem conf k of Inl e \<Rightarrow> Inl (WrapErr e) | Inr item \<Rightarrow> ToInt item)"

definition GetFloat :: "'f env \<Rightarrow> Conf \<Rightarrow> string \<Rightarrow> error + 'f" where
  "GetFloat E conf k =
     (case GetItem conf k of Inl e \<Rightarrow> Inl (WrapErr e) | Inr item \<Rightarrow> ToFloat E item)"

definition GetString :: "Conf \<Rightarrow> string \<Rightarrow> error + string" where
  "GetString conf k =
     (case GetItem conf k of Inl e \<Rightarrow> Inl (WrapErr e) | Inr item \<Rightarrow> Inr (val item))"

definition GetIntArray :: "'f env \<Rightarrow> Conf \<Rightarrow> string \<Rightarrow> error + int list" where
  "GetIntArray E conf k =
     (case GetItem conf k of Inl e \<Rightarrow> Inl (WrapErr e) | Inr item \<Rightarrow> ToIntArray E item)"

definition GetFloatArray :: "'f env \<Rightarrow> Conf \<Rightarrow> string \<Rightarrow> error + 'f list" where
  "GetFloatArray E conf k =
     (case GetItem conf k of Inl e \<Rightarrow> Inl (WrapErr e) | Inr item \<Rightarrow> ToFloatArray E item)"

definition GetStringArray :: "'f env \<Rightarrow> Conf \<Rightarrow> string \<Rightarrow> error + string list" where
  "GetStringArray E conf k =
     (case GetItem conf k of
        Inl e \<Rightarrow> Inl (WrapErr e)
      | Inr item \<Rightarrow> Inr (ToStringArray E item))"

text \<open>\<^verbatim>\<open>Section\<close>, \<^verbatim>\<open>HasSection\<close> and \<^verbatim>\<open>SetGlobalSection\<close>.\<close>

definition Section :: "string \<Rightarrow> Conf \<Rightarrow> error option \<times> Conf" where
  "Section name conf =
     (case sections conf name of
        Some a \<Rightarrow> (None, conf\<lparr>cur := Some a\<rparr>)
      | None \<Rightarrow> (Some (NoSection name), conf))"

definition HasSection :: "Conf \<Rightarrow> string \<Rightarrow> bool" where
  "HasSection conf name = (sections conf name \<noteq> None)"

definition SetGlobalSection :: "Conf \<Rightarrow> Conf" where
  "SetGlobalSection conf = conf\<lparr>cur := sections conf GLOBAL\<rparr>"

section \<open>The loader (src/unnamed/part\_003)\<close>

subsection \<open>The target of a load, as package \<^verbatim>\<open>reflect\<close> shows it\<close>

text \<open>
  \<^verbatim>\<open>Load\<close> walks the fields of a struct through package \<^verbatim>\<open>reflect\<close>. A value is modelled
  by what the loader reads and writes of it: its kind and its content. An integer field
  carries its kind, which fixes its width; a slice carries the kind of its elements; a
  struct is the list of its fields, each with its name, whether it can be set (it is
  exported) and its value. Types are told apart by kind only: named types are not
  modelled.
\<close>

datatype 'f val =
    IntV kind int
  | FloatV kind 'f
  | StringV string
  | SliceV kind "'f val list"
  | StructV "'f field list"
  | OtherV kind
and 'f field =
    StructField (Name: string) (CanSet: bool) (Value: "'f val")

text \<open>\<^verbatim>\<open>Value.Kind\<close>.\<close>

fun Kind :: "'f val \<Rightarrow> kind" where
  "Kind (IntV k _) = k"
| "Kind (FloatV k _) = k"
| "Kind (StringV _) = KString"
| "Kind (SliceV _ _) = KSlice"
| "Kind (StructV _) = KStruct"
| "Kind (OtherV k) = k"

definition isInt :: "kind \<Rightarrow> bool" where
  "isInt k =
     (k = KInt \<or> k = KInt8 \<or> k = KInt16 \<or> k = KInt32 \<or> k = KInt64 \<or> k = KUint \<or>
      k = KUint8 \<or> k = KUint16 \<or> k = KUint32 \<or> k = KUint64)"

text \<open>The width in bits of a signed integer kind (\<^verbatim>\<open>int\<close> has 64 bits), and the value an
  \<^verbatim>\<open>int64\<close> has once stored in that width.\<close>

fun int_bits :: "kind \<Rightarrow> nat option" where
  "int_bits KInt = Some 64"
| "int_bits KInt8 = Some 8"
| "int_bits KInt16 = Some 16"
| "int_bits KInt32 = Some 32"
| "int_bits KInt64 = Some 64"
| "int_bits _ = None"

definition truncate_int :: "nat \<Rightarrow> int \<Rightarrow> int" where
  "truncate_int b x = (x + 2 ^ (b - 1)) mod 2 ^ b - 2 ^ (b - 1)"

text \<open>\<^verbatim>\<open>Value.SetInt\<close> panics unless the value is of a signed integer kind;
  \<^verbatim>\<open>Value.SetFloat\<close> and \<^verbatim>\<open>Value.SetString\<close> likewise for their kinds.\<close>

definition SetInt :: "'f val \<Rightarrow> int \<Rightarrow> error + 'f val" where
  "SetInt v x =
     (case v of
        IntV k _ \<Rightarrow>
          (case int_bits k of
             Some b \<Rightarrow> Inr (IntV k (truncate_int b x))
           | None \<Rightarrow> Inl PanicReflect)
      | _ \<Rightarrow> Inl PanicReflect)"

definition SetFloat :: "'f env \<Rightarrow> 'f val \<Rightarrow> 'f \<Rightarrow> error + 'f val" where
  "SetFloat E v x =
     (case v of
        FloatV k _ \<Rightarrow>
          if k = KFloat32 then Inr (FloatV k (toFloat32 E x))
          else if k = KFloat64 then Inr (FloatV k x)
          else Inl PanicReflect
      | _ \<Rightarrow> Inl PanicReflect)"

definition SetString :: "'f val \<Rightarrow> string \<Rightarrow> error + 'f val" where
  "SetString v x = (case v of StringV _ \<Rightarrow> Inr (StringV x) | _ \<Rightarrow> Inl PanicReflect)"

text \<open>
  The loops \<^verbatim>\<open>for _, val := range vals { fieldValue.Set(reflect.Append(*fieldValue,
  reflect.ValueOf(val))) }\<close>: \<open>elem\<close> is the kind of the values appended (\<^verbatim>\<open>int64\<close>,
  \<^verbatim>\<open>float64\<close> or \<^verbatim>\<open>string\<close>). \<^verbatim>\<open>reflect.Append\<close> panics when the slice has elements of
  another type; with nothing to append the loop does not run.
\<close>

fun append_vals :: "kind \<Rightarrow> 'f val \<Rightarrow> 'f val list \<Rightarrow> error + 'f val" where
  "append_vals elem v [] = Inr v"
| "append_vals elem v (x # xs) =
     (case v of
        SliceV k vs \<Rightarrow>
          if k = elem then append_vals elem (SliceV k (vs @ [x])) xs
          else Inl PanicReflect
      | _ \<Rightarrow> Inl PanicReflect)"

text \<open>\<^verbatim>\<open>fieldMeta.Type.Elem().Kind()\<close>; \<^verbatim>\<open>Elem\<close> panics on a type that has no elements.\<close>

definition ElemKind :: "'f val \<Rightarrow> error + kind" where
  "ElemKind v = (case v of SliceV k _ \<Rightarrow> Inr k | _ \<Rightarrow> Inl PanicReflect)"

subsection \<open>From a field name to an option name\<close>

definition is_upper :: "char \<Rightarrow> bool" where
  "is_upper c = ((65 :: nat) \<le> of_char c \<and> (of_char c :: nat) \<le> 90)"

definition lower_byte :: "char \<Rightarrow> char" where
  "lower_byte c = (if is_upper c then char_of ((of_char c :: nat) + 32) else c)"

definition is_ascii :: "char \<Rightarrow> bool" where
  "is_ascii c = ((of_char c :: nat) < 128)"

text \<open>\<^verbatim>\<open>strings.ToLower\<close>: byte by byte on an ASCII string, the Unicode mapping otherwise.\<close>

definition ToLower :: "'f env \<Rightarrow> string \<Rightarrow> string" where
  "ToLower E s = (if list_all is_ascii s then map lower_byte s else unicodeToLower E s)"

text \<open>
  The first loop of \<^verbatim>\<open>parseConfigOptName\<close>, \<open>buf\<close> being the buffer written so far. The
  loop ranges over the runes of the field name and writes back every rune that is not
  an ASCII capital; a field name is a Go identifier, hence valid UTF-8, for which that
  copies its bytes.
\<close>

fun snake_loop :: "string \<Rightarrow> string \<Rightarrow> string" where
  "snake_loop buf [] = buf"
| "snake_loop buf (c # cs) =
     (if is_upper c then
        snake_loop ((if length buf \<noteq> 0 then buf @ ''_'' else buf) @ [lower_byte c]) cs
      else snake_loop (buf @ [c]) cs)"

definition parseConfigOptName :: "'f env \<Rightarrow> string \<Rightarrow> Conf \<Rightarrow> string" where
  "parseConfigOptName E field conf =
     (let f = snake_loop [] field in
      if HasItem conf f \<or> HasSection conf f then f
      else
        let f = ToLower E field in
        if HasItem conf f \<or> HasSection conf f then f
        else if HasItem conf field \<or> HasSection conf field then field
        else [])"

subsection \<open>Loading\<close>

text \<open>
  \<^verbatim>\<open>loadSliceField\<close>. Like every function of the loader it returns the error, if any, and
  the value as the call leaves it.
\<close>

definition loadSliceField :: "'f env \<Rightarrow> string \<Rightarrow> 'f val \<Rightarrow> Conf \<Rightarrow> error option \<times> 'f val" where
  "loadSliceField E optName v conf =
     (case ElemKind v of
        Inl p \<Rightarrow> (Some p, v)
      | Inr eleKind \<Rightarrow>
          if isInt eleKind then
            (case GetIntArray E conf optName of
               Inl e \<Rightarrow> (Some e, v)
             | Inr vals \<Rightarrow>
                 (case append_vals KInt64 v (map (IntV KInt64) vals) of
                    Inl p \<Rightarrow> (Some p, v)
                  | Inr v' \<Rightarrow> (None, v')))
          else if eleKind = KFloat32 \<or> eleKind = KFloat64 then
            (case GetFloatArray E conf optName of
               Inl e \<Rightarrow> (Some e, v)
             | Inr vals \<Rightarrow>
                 (case append_vals KFloat64 v (map (FloatV KFloat64) vals) of
                    Inl p \<Rightarrow> (Some p, v)
                  | Inr v' \<Rightarrow> (None, v')))
          else if eleKind = KString then
            (case GetStringArray E conf optName of
               Inl e \<Rightarrow> (Some e, v)
             | Inr vals \<Rightarrow>
                 (case append_vals KString v (map StringV vals) of
                    Inl p \<Rightarrow> (Some p, v)
                  | Inr v' \<Rightarrow> (None, v')))
          else (Some NotSupportElem, v))"

text \<open>
  \<^verbatim>\<open>loadField\<close>, and the loop over the fields of a struct, which \<^verbatim>\<open>Load\<close> runs on the
  target and \<^verbatim>\<open>loadField\<close> on a field of kind struct. Both return the error, if any, the
  field or fields as the call leaves them, and the \<open>Conf\<close> as the call leaves it. The
  result of \<^verbatim>\<open>conf.Section(optName)\<close> is dropped by the source, and so it is here.
\<close>

fun loadField :: "'f env \<Rightarrow> 'f field \<Rightarrow> Conf \<Rightarrow> error option \<times> 'f field \<times> Conf"
  and loadFields :: "'f env \<Rightarrow> 'f field list \<Rightarrow> Conf \<Rightarrow> error option \<times> 'f field list \<times> Conf"
where
  "loadField E (StructField fieldName canSet fieldValue) conf =
     (if \<not> canSet then (Some (FieldNotSettable fieldName), StructField fieldName canSet fieldValue, conf)
      else
        let optName = parseConfigOptName E fieldName conf in
        if optName = [] then (None, StructField fieldName canSet fieldValue, conf)
        else
          let kind = Kind fieldValue in
          if isInt kind then
            (case GetInt conf optName of
               Inl e \<Rightarrow> (Some e, StructField fieldName canSet fieldValue, conf)
             | Inr x \<Rightarrow>
                 (case SetInt fieldValue x of
                    Inl p \<Rightarrow> (Some p, StructField fieldName canSet fieldValue, conf)
                  | Inr v' \<Rightarrow> (None, StructField fieldName canSet v', conf)))
          else if kind = KFloat32 \<or> kind = KFloat64 then
            (case GetFloat E conf optName of
               Inl e \<Rightarrow> (Some e, StructField fieldName canSet fieldValue, conf)
             | Inr x \<Rightarrow>
                 (case SetFloat E fieldValue x of
                    Inl p \<Rightarrow> (Some p, StructField fieldName canSet fieldValue, conf)
                  | Inr v' \<Rightarrow> (None, StructField fieldName canSet v', conf)))
          else if kind = KString then
            (case GetString conf optName of
               Inl e \<Rightarrow> (Some e, StructField fieldName canSet fieldValue, conf)
             | Inr x \<Rightarrow>
                 (case SetString fieldValue x of
                    Inl p \<Rightarrow> (Some p, StructField fieldName canSet fieldValue, conf)
                  | Inr v' \<Rightarrow> (None, StructField fieldName canSet v', conf)))
          else if kind = KSlice then
            (case loadSliceField E optName fieldValue conf of
               (e, v') \<Rightarrow> (e, StructField fieldName canSet v', conf))
          else if kind = KStruct then
            (case fieldValue of
               StructV inner \<Rightarrow>
                 (case loadFields E inner (snd (Section optName conf)) of
                    (Some e, inner', conf') \<Rightarrow>
                      (Some e, StructField fieldName canSet (StructV inner'), conf')
                  | (None, inner', conf') \<Rightarrow>
                      (None, StructField fieldName canSet (StructV inner'), SetGlobalSection conf'))
             | _ \<Rightarrow> (Some PanicReflect, StructField fieldName canSet fieldValue, conf))
          else (Some (NotSupportType kind), StructField fieldName canSet fieldValue, conf))"
| "loadFields E [] conf = (None, [], conf)"
| "loadFields E (f # fs) conf =
     (case loadField E f conf of
        (Some e, f', conf') \<Rightarrow> (Some e, f' # fs, conf')
      | (None, f', conf') \<Rightarrow>
          (case loadFields E fs conf' of (e, fs', conf'') \<Rightarrow> (e, f' # fs', conf'')))"

text \<open>
  \<^verbatim>\<open>Load\<close>, given a pointer to a struct whose fields are \<open>fs\<close>; \<open>file\<close> is the text of the
  file at \<open>configFile\<close>, or \<open>None\<close> when it cannot be opened. The \<open>Conf\<close> is local to the
  call.
\<close>

definition Load :: "'f env \<Rightarrow> 'f field list \<Rightarrow> string \<Rightarrow> string option \<Rightarrow> error option \<times> 'f field list" where
  "Load E fs configFile file =
     (case Parse (New configFile) file of
        (Some e, conf) \<Rightarrow> (Some e, fs)
      | (None, conf) \<Rightarrow>
          (case loadFields E fs conf of (e, fs', conf') \<Rightarrow> (e, fs')))"

section \<open>Notions used to state the properties\<close>

text \<open>
  An environment for running examples: the package variable as \<^verbatim>\<open>init\<close> leaves it. The
  examples load no float and use ASCII names only, so the three library functions that
  are taken as given are never called in them; they are filled in with the float parser
  that rejects every text and with identities.
\<close>

definition env0 :: "unit env" where
  "env0 = \<lparr>elementSep = DEFAULT_SEP, ParseFloat = (\<lambda>s. Inl (ErrFloat s)),
            toFloat32 = (\<lambda>x. x), unicodeToLower = (\<lambda>s. s)\<rparr>"

text \<open>
  The array conversion as the specification words it, for comparison with
  \<open>ToStringArray\<close>: split the value on the separator, trim every segment, and drop the
  segments that are empty after trimming.
\<close>

definition ToStringArray_spec :: "'f env \<Rightarrow> Item \<Rightarrow> string list" where
  "ToStringArray_spec E item =
     filter (\<lambda>p. p \<noteq> [])
       (map (\<lambda>p. Trim p SPACE_CHARS) (Split (val item) (string_of_byte (elementSep E))))"

text \<open>
  How \<^verbatim>\<open>parse\<close> classifies a line it has read. \<open>header_name line\<close> is the section name when
  the trimmed line is not empty, is not a comment and passes \<^verbatim>\<open>isSection\<close>.
  \<open>line_without_sep line\<close> says that the trimmed line is not empty, is not a comment, is
  not a section header and holds no \<^verbatim>\<open>':'\<close>.
\<close>

definition header_name :: "string \<Rightarrow> string option" where
  "header_name line =
     (let t = Trim line SPACE_CHARS in
      if t = [] then None
      else if t ! 0 = COMMENT_TAG then None
      else if isSection t
        then Some (Trim (take (length t - 1 - 1) (drop 1 t)) SPACE_CHARS)
      else None)"

definition line_without_sep :: "string \<Rightarrow> bool" where
  "line_without_sep line =
     (let t = Trim line SPACE_CHARS in
      t \<noteq> [] \<and> t ! 0 \<noteq> COMMENT_TAG \<and> \<not> isSection t \<and> KV_SEP \<notin> set t)"

text \<open>The section registered under a name, as a map from keys to items; empty when the
  name is not registered.\<close>

definition section_of :: "Conf \<Rightarrow> string \<Rightarrow> section_map" where
  "section_of conf name =
     (case sections conf name of None \<Rightarrow> Map.empty | Some a \<Rightarrow> heap conf a)"

text \<open>The grammar of a raw key that marks an array: at least four bytes, \<^verbatim>\<open>'['\<close> first,
  \<^verbatim>\<open>']'\<close> last and \<^verbatim>\<open>'@'\<close> second.\<close>

definition composite_key :: "string \<Rightarrow> bool" where
  "composite_key k =
     (4 \<le> length k \<and> k ! 0 = COMPOSITE_LEFT \<and> k ! (length k - 1) = COMPOSITE_RIGHT \<and>
      k ! 1 = ARRAY_TAG)"

section \<open>Properties of the items that keep their raw key\<close>

text \<open>
  Claim C1. An item with raw key \<^verbatim>\<open>[@K]\<close> and value \<^verbatim>\<open>1 2 3\<close> converts to the integer
  array \<open>[1, 2, 3]\<close>, and so does an item with raw key \<^verbatim>\<open>[@K@,]\<close> and value
  \<^verbatim>\<open>1,2,3\<close>: the separator named in the raw key replaces the default blank when the
  item is read. The normalised key plays no part in the conversion, so it is left
  arbitrary in the first two conjuncts; the last two take the item as \<^verbatim>\<open>Parse\<close>
  builds it.
\<close>

theorem C1_separator_override:
  "ToIntArray_v1 \<lparr>rawKey = ''[@K]'', val_v1 = ''1 2 3'', key_v1 = k\<rparr> = Inr [1, 2, 3]
   \<and> ToIntArray_v1 \<lparr>rawKey = ''[@K@,]'', val_v1 = ''1,2,3'', key_v1 = k\<rparr> = Inr [1, 2, 3]
   \<and> ToIntArray_v1 (mkItem_v1 ''[@K]'' ''1 2 3'') = Inr [1, 2, 3]
   \<and> ToIntArray_v1 (mkItem_v1 ''[@K@,]'' ''1,2,3'') = Inr [1, 2, 3]"
proof -
  have a: "ToIntArray_v1 \<lparr>rawKey = ''[@K]'', val_v1 = ''1 2 3'', key_v1 = k\<rparr>
             = Inr [1, 2, 3]"
    by code_simp
  have b: "ToIntArray_v1 \<lparr>rawKey = ''[@K@,]'', val_v1 = ''1,2,3'', key_v1 = k\<rparr>
             = Inr [1, 2, 3]"
    by code_simp
  have c: "ToIntArray_v1 (mkItem_v1 ''[@K]'' ''1 2 3'') = Inr [1, 2, 3]"
    by code_simp
  have d: "ToIntArray_v1 (mkItem_v1 ''[@K@,]'' ''1,2,3'') = Inr [1, 2, 3]"
    by code_simp
  from a b c d show ?thesis
    by blast
qed

text \<open>
  For a raw key that is not empty the conversion does what the grammar asks: a key that
  does not match it is refused as not an array, \<^verbatim>\<open>[@]\<close> included.
\<close>

lemma ToStringArray_v1_not_array:
  assumes "rawKey item \<noteq> []" and "\<not> composite_key (rawKey item)"
  shows "ToStringArray_v1 item = Inl (NotAnArray (rawKey item))"
proof (cases "length (rawKey item) = 1")
  case True
  with assms(1) show ?thesis
    by (auto simp: ToStringArray_v1_def Let_def COMPOSITE_LEFT_def COMPOSITE_RIGHT_def)
next
  case False
  with assms(1) have "2 \<le> length (rawKey item)"
    by (cases "rawKey item") (auto simp: Suc_le_eq)
  with assms(2) show ?thesis
    by (auto simp: ToStringArray_v1_def Let_def composite_key_def)
qed

lemma ToStringArray_v1_short_key:
  "ToStringArray_v1 \<lparr>rawKey = ''[@]'', val_v1 = v, key_v1 = k\<rparr> = Inl (NotAnArray ''[@]'')"
  by code_simp

text \<open>
  Claim C3. The empty raw key does not match the grammar either, and there the
  conversion does not return the error: it indexes the raw key before it tests its
  length, which is a run-time panic. \<^verbatim>\<open>Parse\<close> builds such an item from a line that starts
  with the separator.
\<close>

theorem C3_empty_raw_key_panics:
  "\<not> composite_key []
   \<and> ToStringArray_v1 \<lparr>rawKey = [], val_v1 = v, key_v1 = k\<rparr> = Inl PanicIndexOutOfRange
   \<and> fst (Parse_v1 (New_v1 ''conf'') '': 1 2 3'') = None
   \<and> GetItem_v1 (snd (Parse_v1 (New_v1 ''conf'') '': 1 2 3'')) []
       = Inr \<lparr>rawKey = [], val_v1 = ''1 2 3'', key_v1 = []\<rparr>
   \<and> GetStringArray_v1 (snd (Parse_v1 (New_v1 ''conf'') '': 1 2 3'')) []
       = Inl PanicIndexOutOfRange"
proof -
  have a: "\<not> composite_key []"
    by (simp add: composite_key_def)
  have b: "ToStringArray_v1 \<lparr>rawKey = [], val_v1 = v, key_v1 = k\<rparr> = Inl PanicIndexOutOfRange"
    by (simp add: ToStringArray_v1_def)
  have c: "fst (Parse_v1 (New_v1 ''conf'') '': 1 2 3'') = None"
    by code_simp
  have d: "GetItem_v1 (snd (Parse_v1 (New_v1 ''conf'') '': 1 2 3'')) []
             = Inr \<lparr>rawKey = [], val_v1 = ''1 2 3'', key_v1 = []\<rparr>"
    by code_simp
  have e: "GetStringArray_v1 (snd (Parse_v1 (New_v1 ''conf'') '': 1 2 3'')) []
             = Inl PanicIndexOutOfRange"
    by code_simp
  from a b c d e show ?thesis by blast
qed

section \<open>Properties of the array conversion of the later revision\<close>

lemma collect_eles_eq:
  "collect_eles eles parts =
     eles @ map (\<lambda>p. Trim p SPACE_CHARS) (filter (\<lambda>p. p \<noteq> []) parts)"
  by (induction parts arbitrary: eles) simp_all

text \<open>
  Claim C6 (amended). \<^verbatim>\<open>ToStringArray\<close> splits the value of the item on the separator
  byte, drops every segment that is the empty string as it comes out of the split, and
  returns the remaining segments trimmed of blanks, tabs and newlines, in their order. A
  segment made of blanks, tabs or newlines only is therefore kept, as the empty string.
\<close>

theorem C6_ToStringArray_drops_then_trims:
  "ToStringArray E item =
     map (\<lambda>p. Trim p SPACE_CHARS)
       (filter (\<lambda>p. p \<noteq> []) (Split (val item) (string_of_byte (elementSep E))))"
  by (simp add: ToStringArray_def collect_eles_eq)

theorem C6_counterexample:
  "ToStringArray env0 \<lparr>key = ''k'', val = ''a '' @ [TAB] @ '' b''\<rparr> = [''a'', [], ''b'']
   \<and> ToStringArray_spec env0 \<lparr>key = ''k'', val = ''a '' @ [TAB] @ '' b''\<rparr> = [''a'', ''b'']
   \<and> ToStringArray (SetElementSep CHR '','' env0) \<lparr>key = ''k'', val = ''1, ,2''\<rparr>
       = [''1'', [], ''2'']
   \<and> ToStringArray_spec (SetElementSep CHR '','' env0) \<lparr>key = ''k'', val = ''1, ,2''\<rparr>
       = [''1'', ''2'']"
proof -
  have a: "ToStringArray env0 \<lparr>key = ''k'', val = ''a '' @ [TAB] @ '' b''\<rparr>
             = [''a'', [], ''b'']"
    by code_simp
  have b: "ToStringArray_spec env0 \<lparr>key = ''k'', val = ''a '' @ [TAB] @ '' b''\<rparr>
             = [''a'', ''b'']"
    by code_simp
  have c: "ToStringArray (SetElementSep CHR '','' env0) \<lparr>key = ''k'', val = ''1, ,2''\<rparr>
             = [''1'', [], ''2'']"
    by code_simp
  have d: "ToStringArray_spec (SetElementSep CHR '','' env0) \<lparr>key = ''k'', val = ''1, ,2''\<rparr>
             = [''1'', ''2'']"
    by code_simp
  from a b c d show ?thesis by blast
qed


section \<open>Properties of the parser\<close>

subsection \<open>One round of the loop\<close>

lemma Trim_last: "Trim s cs \<noteq> [] \<Longrightarrow> last (Trim s cs) \<notin> set cs"
  unfolding Trim_def TrimRight_def
  by (metis hd_dropWhile last_rev rev_is_Nil_conv)

lemma Trim_last_nth:
  "Trim s SPACE_CHARS \<noteq> [] \<Longrightarrow>
   Trim s SPACE_CHARS ! (length (Trim s SPACE_CHARS) - 1) \<noteq> NEWLINE"
  using Trim_last [of s SPACE_CHARS]
  by (auto simp: last_conv_nth SPACE_CHARS_def)

lemma parse_line_eq:
  "parse_line conf line =
     (let t = Trim line SPACE_CHARS in
      if t = [] then (None, conf)
      else if t ! 0 = COMMENT_TAG then (None, conf)
      else if isSection t then
        (let n = Trim (take (length t - 1 - 1) (drop 1 t)) SPACE_CHARS in
         if sections conf n \<noteq> None then (Some (SectionExists n), conf)
         else (None, conf\<lparr>heap := (heap conf)(fresh conf := Map.empty), fresh := Suc (fresh conf),
                  cur := Some (fresh conf), sections := (sections conf)(n \<mapsto> fresh conf)\<rparr>))
      else
        (let parts = SplitN t (string_of_byte KV_SEP) 2 in
         if length parts \<noteq> 2 then (Some (NeedColon t), conf)
         else if Trim (parts ! 1) SPACE_CHARS = [] then (Some EmptyValue, conf)
         else (case cur conf of
                 None \<Rightarrow> (Some PanicNilMap, conf)
               | Some a \<Rightarrow>
                   (None, conf\<lparr>heap := (heap conf)
                      (a := (heap conf a)(Trim (parts ! 0) SPACE_CHARS \<mapsto>
                         \<lparr>key = Trim (parts ! 0) SPACE_CHARS, val = Trim (parts ! 1) SPACE_CHARS\<rparr>))\<rparr>))))"
proof (cases "Trim line SPACE_CHARS = []")
  case True
  then show ?thesis by (simp add: parse_line_def)
next
  case False
  then show ?thesis
    using Trim_last_nth [OF False]
    by (simp add: parse_line_def Let_def newSection_def split: option.split)
qed

lemma genSplit_no_sep: "c \<notin> set s \<Longrightarrow> genSplit [c] acc 2 s = [acc @ s]"
  by (induction s arbitrary: acc) auto

lemma string_of_byte_KV_SEP: "string_of_byte KV_SEP = [KV_SEP]"
  by (simp add: string_of_byte_def KV_SEP_def)

lemma SplitN_no_sep: "KV_SEP \<notin> set t \<Longrightarrow> SplitN t (string_of_byte KV_SEP) 2 = [t]"
  by (simp add: SplitN_def string_of_byte_KV_SEP genSplit_no_sep)

lemma parse_line_without_sep:
  "line_without_sep line \<Longrightarrow>
   parse_line conf line = (Some (NeedColon (Trim line SPACE_CHARS)), conf)"
  by (simp add: line_without_sep_def parse_line_eq Let_def SplitN_no_sep)

lemma parse_line_header:
  "header_name line = Some n \<Longrightarrow>
   parse_line conf line =
     (if sections conf n \<noteq> None then (Some (SectionExists n), conf)
      else (None, conf\<lparr>heap := (heap conf)(fresh conf := Map.empty), fresh := Suc (fresh conf),
                  cur := Some (fresh conf), sections := (sections conf)(n \<mapsto> fresh conf)\<rparr>))"
  by (auto simp: header_name_def parse_line_eq Let_def split: if_splits)

lemma parse_lines_append:
  "parse_lines conf (xs @ ys) =
     (case parse_lines conf xs of
        (Some e, conf') \<Rightarrow> (Some e, conf')
      | (None, conf') \<Rightarrow> parse_lines conf' ys)"
  by (induction xs arbitrary: conf) (auto split: prod.splits option.splits)

lemma parse_line_sections_mono:
  "parse_line conf line = (None, conf') \<Longrightarrow> sections conf n = Some a \<Longrightarrow>
   sections conf' n = Some a"
  by (auto simp: parse_line_eq Let_def split: if_splits option.splits)

lemma parse_lines_sections_mono:
  "parse_lines conf ls = (None, conf') \<Longrightarrow> sections conf n = Some a \<Longrightarrow>
   sections conf' n = Some a"
proof (induction ls arbitrary: conf)
  case Nil
  then show ?case by simp
next
  case (Cons l ls)
  obtain e c where pl: "parse_line conf l = (e, c)" by (cases "parse_line conf l")
  with Cons.prems(1) have e: "e = None" and rest: "parse_lines c ls = (None, conf')"
    by (auto split: option.splits)
  from pl e Cons.prems(2) have "sections c n = Some a"
    by (auto dest: parse_line_sections_mono)
  with rest show ?case by (rule Cons.IH)
qed

lemma parse_line_header_registers:
  "header_name line = Some n \<Longrightarrow> parse_line conf line = (None, conf') \<Longrightarrow>
   sections conf' n \<noteq> None"
  by (auto simp: parse_line_header split: if_splits)

lemma parse_lines_header_registers:
  "parse_lines conf (pre @ l # mid) = (None, conf') \<Longrightarrow> header_name l = Some n \<Longrightarrow>
   sections conf' n \<noteq> None"
proof -
  assume ok: "parse_lines conf (pre @ l # mid) = (None, conf')" and h: "header_name l = Some n"
  obtain e1 c1 where p1: "parse_lines conf pre = (e1, c1)" by (cases "parse_lines conf pre")
  obtain e2 c2 where p2: "parse_line c1 l = (e2, c2)" by (cases "parse_line c1 l")
  from ok p1 p2 have e2: "e2 = None" and rest: "parse_lines c2 mid = (None, conf')"
    by (auto simp: parse_lines_append split: option.splits)
  from h p2 e2 obtain a where "sections c2 n = Some a"
    using parse_line_header_registers by blast
  with rest show ?thesis
    by (auto dest: parse_lines_sections_mono)
qed

subsection \<open>Lines that are rejected\<close>

text \<open>
  Claim C7 (amended). Let a line of the input be, once trimmed, not empty, not a comment
  and not a section header, and hold no \<^verbatim>\<open>':'\<close>. Then \<^verbatim>\<open>parse\<close> fails on the input, whatever
  else the input holds and also when the line is the last one and ends without a
  newline. \<^verbatim>\<open>parse\<close> stops at the first line it rejects: when it rejects a line before this
  one the error is that line's, and otherwise it is the error that cites this line.
\<close>

theorem C7_line_without_separator:
  assumes "ReadLines [] text = pre @ line # post"
    and "line_without_sep line"
  shows "fst (parse conf text) \<noteq> None \<and>
         fst (parse conf text) =
           (case fst (parse_lines conf pre) of
              Some e \<Rightarrow> Some e
            | None \<Rightarrow> Some (NeedColon (Trim line SPACE_CHARS)))"
proof -
  obtain e1 c1 where p1: "parse_lines conf pre = (e1, c1)"
    by (cases "parse_lines conf pre")
  have p2: "parse_line c1 line = (Some (NeedColon (Trim line SPACE_CHARS)), c1)"
    using assms(2) by (rule parse_line_without_sep)
  have "fst (parse conf text) =
          (case e1 of Some e \<Rightarrow> Some e | None \<Rightarrow> Some (NeedColon (Trim line SPACE_CHARS)))"
    by (simp add: parse_def assms(1) parse_lines_append p1 p2 split: option.split)
  then show ?thesis
    by (simp add: p1 split: option.splits)
qed

theorem C7_witness:
  "fst (parse (New ''conf'') (''item1: valu'' @ [NEWLINE] @ ''item1jfak''))
     = Some (NeedColon ''item1jfak'')"
proof -
  have l: "ReadLines [] (''item1: valu'' @ [NEWLINE] @ ''item1jfak'')
             = [''item1: valu'' @ [NEWLINE]] @ ''item1jfak'' # []"
    by code_simp
  have w: "line_without_sep ''item1jfak''"
    by code_simp
  have p: "fst (parse_lines (New ''conf'') [''item1: valu'' @ [NEWLINE]]) = None"
    by code_simp
  have t: "Trim ''item1jfak'' SPACE_CHARS = ''item1jfak''"
    by code_simp
  from C7_line_without_separator [OF l w, of "New ''conf''"] show ?thesis
    by (simp only: p t option.case)
qed

theorem C7_counterexample:
  "line_without_sep ''item1jfak''
   \<and> ReadLines [] (''item1:  '' @ [NEWLINE] @ ''item1jfak'')
       = [''item1:  '' @ [NEWLINE], ''item1jfak'']
   \<and> fst (parse (New ''conf'') (''item1:  '' @ [NEWLINE] @ ''item1jfak'')) = Some EmptyValue"
proof -
  have a: "line_without_sep ''item1jfak''"
    by code_simp
  have b: "ReadLines [] (''item1:  '' @ [NEWLINE] @ ''item1jfak'')
             = [''item1:  '' @ [NEWLINE], ''item1jfak'']"
    by code_simp
  have c: "fst (parse (New ''conf'') (''item1:  '' @ [NEWLINE] @ ''item1jfak'')) = Some EmptyValue"
    by code_simp
  from a b c show ?thesis by blast
qed

text \<open>
  Claim C5 (amended). Let two lines of the input be section headers with the same name,
  whatever stands between and after them. Then \<^verbatim>\<open>parse\<close> fails on the input. \<^verbatim>\<open>parse\<close> stops
  at the first line it rejects: when it rejects a line before the second header the
  error is that line's, and otherwise it is the error that names the section declared
  twice.
\<close>

theorem C5_duplicate_section:
  assumes "ReadLines [] text = pre @ l1 # mid @ l2 # post"
    and "header_name l1 = Some n"
    and "header_name l2 = Some n"
  shows "fst (parse conf text) \<noteq> None \<and>
         fst (parse conf text) =
           (case fst (parse_lines conf (pre @ l1 # mid)) of
              Some e \<Rightarrow> Some e
            | None \<Rightarrow> Some (SectionExists n))"
proof -
  obtain e1 c1 where p1: "parse_lines conf (pre @ l1 # mid) = (e1, c1)"
    by (cases "parse_lines conf (pre @ l1 # mid)")
  have split_lines: "ReadLines [] text = (pre @ l1 # mid) @ l2 # post"
    by (simp add: assms(1))
  have "fst (parse conf text) = (case e1 of Some e \<Rightarrow> Some e | None \<Rightarrow> Some (SectionExists n))"
  proof (cases e1)
    case None
    with p1 assms(2) have "sections c1 n \<noteq> None"
      by (auto dest: parse_lines_header_registers)
    then have "parse_line c1 l2 = (Some (SectionExists n), c1)"
      using assms(3) by (simp add: parse_line_header)
    with p1 None show ?thesis
      by (simp add: parse_def split_lines parse_lines_append del: append_assoc)
  next
    case (Some e)
    with p1 show ?thesis
      by (simp add: parse_def split_lines parse_lines_append del: append_assoc)
  qed
  then show ?thesis
    by (simp add: p1 split: option.splits)
qed

theorem C5_witness:
  "fst (parse (New ''conf'')
         (''[S]'' @ [NEWLINE] @ ''a: 1'' @ [NEWLINE] @ ''[ S ]'' @ [NEWLINE] @ ''b: 2''))
     = Some (SectionExists ''S'')"
proof -
  have l: "ReadLines []
             (''[S]'' @ [NEWLINE] @ ''a: 1'' @ [NEWLINE] @ ''[ S ]'' @ [NEWLINE] @ ''b: 2'')
           = [] @ (''[S]'' @ [NEWLINE]) # [''a: 1'' @ [NEWLINE]] @ (''[ S ]'' @ [NEWLINE]) # [''b: 2'']"
    by code_simp
  have h1: "header_name (''[S]'' @ [NEWLINE]) = Some ''S''"
    by code_simp
  have h2: "header_name (''[ S ]'' @ [NEWLINE]) = Some ''S''"
    by code_simp
  have p: "fst (parse_lines (New ''conf'')
                  ([] @ (''[S]'' @ [NEWLINE]) # [''a: 1'' @ [NEWLINE]])) = None"
    by code_simp
  from C5_duplicate_section [OF l h1 h2, of "New ''conf''"] show ?thesis
    by (simp only: p option.case)
qed

theorem C5_counterexample:
  "header_name (''[S]'' @ [NEWLINE]) = Some ''S''
   \<and> header_name ''[S]'' = Some ''S''
   \<and> ReadLines [] (''[S]'' @ [NEWLINE] @ ''item1jfak'' @ [NEWLINE] @ ''[S]'')
       = [''[S]'' @ [NEWLINE], ''item1jfak'' @ [NEWLINE], ''[S]'']
   \<and> fst (parse (New ''conf'') (''[S]'' @ [NEWLINE] @ ''item1jfak'' @ [NEWLINE] @ ''[S]''))
       = Some (NeedColon ''item1jfak'')"
proof -
  have a: "header_name (''[S]'' @ [NEWLINE]) = Some ''S''"
    by code_simp
  have b: "header_name ''[S]'' = Some ''S''"
    by code_simp
  have c: "ReadLines [] (''[S]'' @ [NEWLINE] @ ''item1jfak'' @ [NEWLINE] @ ''[S]'')
             = [''[S]'' @ [NEWLINE], ''item1jfak'' @ [NEWLINE], ''[S]'']"
    by code_simp
  have d: "fst (parse (New ''conf'') (''[S]'' @ [NEWLINE] @ ''item1jfak'' @ [NEWLINE] @ ''[S]''))
             = Some (NeedColon ''item1jfak'')"
    by code_simp
  from a b c d show ?thesis by blast
qed

section \<open>Properties of the section store\<close>

text \<open>
  Claim C10. When a name is not registered in \<^verbatim>\<open>conf.sections\<close>, \<^verbatim>\<open>Section\<close> returns the error
  that names it and leaves the \<open>Conf\<close> as it was, the current section included: every
  \<^verbatim>\<open>HasItem\<close> and \<^verbatim>\<open>GetItem\<close> after the call answers as before it.
\<close>

theorem C10_failed_Section_keeps_cursor:
  assumes "sections conf name = None"
  shows "fst (Section name conf) = Some (NoSection name)
         \<and> snd (Section name conf) = conf
         \<and> cur (snd (Section name conf)) = cur conf
         \<and> HasItem (snd (Section name conf)) k = HasItem conf k
         \<and> GetItem (snd (Section name conf)) k = GetItem conf k"
  using assms by (simp add: Section_def)

theorem C10_witness:
  "fst (Section ''S2'' (snd (parse (New ''conf'') (''g: 1'' @ [NEWLINE] @ ''[S1]'' @ [NEWLINE] @ ''a: 2''))))
     = Some (NoSection ''S2'')
   \<and> HasItem (snd (Section ''S2''
         (snd (parse (New ''conf'') (''g: 1'' @ [NEWLINE] @ ''[S1]'' @ [NEWLINE] @ ''a: 2''))))) ''a''
   \<and> HasItem (snd (parse (New ''conf'') (''g: 1'' @ [NEWLINE] @ ''[S1]'' @ [NEWLINE] @ ''a: 2''))) ''a''"
proof -
  have h: "sections (snd (parse (New ''conf'') (''g: 1'' @ [NEWLINE] @ ''[S1]'' @ [NEWLINE] @ ''a: 2'')))
             ''S2'' = None"
    by code_simp
  have a: "HasItem (snd (parse (New ''conf'') (''g: 1'' @ [NEWLINE] @ ''[S1]'' @ [NEWLINE] @ ''a: 2''))) ''a''"
    by code_simp
  from C10_failed_Section_keeps_cursor [OF h, of "''a''"] a show ?thesis
    by simp
qed

section \<open>Properties of the loader\<close>

text \<open>
  Claim C4. The option name of a field is the first of three candidates, tried in this
  order, that is an item of the current section or a registered section: the field name
  in lower snake case, the field name in lower case, the field name itself; it is empty
  when none is present. For \<^verbatim>\<open>AExampleField\<close> the candidates are \<^verbatim>\<open>a_example_field\<close>,
  \<^verbatim>\<open>aexamplefield\<close> and \<^verbatim>\<open>AExampleField\<close>; each is found when it is the only one in the
  file, as an item or as a section, and an earlier candidate wins over a later one.
\<close>

theorem C4_option_name_resolution:
  "parseConfigOptName E field conf =
     (case find (\<lambda>f. HasItem conf f \<or> HasSection conf f)
             [snake_loop [] field, ToLower E field, field] of
        Some f \<Rightarrow> f
      | None \<Rightarrow> [])
   \<and> snake_loop [] ''AExampleField'' = ''a_example_field''
   \<and> ToLower E ''AExampleField'' = ''aexamplefield''
   \<and> parseConfigOptName E ''AExampleField''
         (snd (Parse (New ''conf'') (Some ''a_example_field: 1''))) = ''a_example_field''
   \<and> parseConfigOptName E ''AExampleField''
         (snd (Parse (New ''conf'') (Some ''aexamplefield: 1''))) = ''aexamplefield''
   \<and> parseConfigOptName E ''AExampleField''
         (snd (Parse (New ''conf'') (Some ''AExampleField: 1''))) = ''AExampleField''
   \<and> parseConfigOptName E ''AExampleField''
         (snd (Parse (New ''conf'') (Some ''[aexamplefield]''))) = ''aexamplefield''
   \<and> parseConfigOptName E ''AExampleField''
         (snd (Parse (New ''conf'')
            (Some (''AExampleField: 1'' @ [NEWLINE] @ ''aexamplefield: 2'' @ [NEWLINE] @
                   ''a_example_field: 3'')))) = ''a_example_field''
   \<and> parseConfigOptName E ''AExampleField''
         (snd (Parse (New ''conf'')
            (Some (''AExampleField: 1'' @ [NEWLINE] @ ''aexamplefield: 2'')))) = ''aexamplefield''
   \<and> parseConfigOptName E ''AExampleField''
         (snd (Parse (New ''conf'') (Some ''other: 1''))) = []"
proof -
  have order: "parseConfigOptName E field conf =
     (case find (\<lambda>f. HasItem conf f \<or> HasSection conf f)
             [snake_loop [] field, ToLower E field, field] of
        Some f \<Rightarrow> f
      | None \<Rightarrow> [])"
    by (simp add: parseConfigOptName_def Let_def)
  have snake: "snake_loop [] ''AExampleField'' = ''a_example_field''"
    by code_simp
  have lower: "ToLower E ''AExampleField'' = ''aexamplefield''"
    by code_simp
  have only1: "parseConfigOptName E ''AExampleField''
         (snd (Parse (New ''conf'') (Some ''a_example_field: 1''))) = ''a_example_field''"
    by code_simp
  have only2: "parseConfigOptName E ''AExampleField''
         (snd (Parse (New ''conf'') (Some ''aexamplefield: 1''))) = ''aexamplefield''"
    by code_simp
  have only3: "parseConfigOptName E ''AExampleField''
         (snd (Parse (New ''conf'') (Some ''AExampleField: 1''))) = ''AExampleField''"
    by code_simp
  have sec: "parseConfigOptName E ''AExampleField''
         (snd (Parse (New ''conf'') (Some ''[aexamplefield]''))) = ''aexamplefield''"
    by code_simp
  have all3: "parseConfigOptName E ''AExampleField''
         (snd (Parse (New ''conf'')
            (Some (''AExampleField: 1'' @ [NEWLINE] @ ''aexamplefield: 2'' @ [NEWLINE] @
                   ''a_example_field: 3'')))) = ''a_example_field''"
    by code_simp
  have last2: "parseConfigOptName E ''AExampleField''
         (snd (Parse (New ''conf'')
            (Some (''AExampleField: 1'' @ [NEWLINE] @ ''aexamplefield: 2'')))) = ''aexamplefield''"
    by code_simp
  have none: "parseConfigOptName E ''AExampleField''
         (snd (Parse (New ''conf'') (Some ''other: 1''))) = []"
    by code_simp
  from order snake lower only1 only2 only3 sec all3 last2 none show ?thesis
    by blast
qed

theorem C4_witness:
  "parseConfigOptName env0 ''AExampleField''
     (snd (Parse (New ''conf'') (Some (''AExampleField: 1'' @ [NEWLINE] @ ''aexamplefield: 2''))))
   = ''aexamplefield''"
proof -
  have f: "find (\<lambda>f. HasItem (snd (Parse (New ''conf'')
                     (Some (''AExampleField: 1'' @ [NEWLINE] @ ''aexamplefield: 2'')))) f
                 \<or> HasSection (snd (Parse (New ''conf'')
                     (Some (''AExampleField: 1'' @ [NEWLINE] @ ''aexamplefield: 2'')))) f)
             [snake_loop [] ''AExampleField'', ToLower env0 ''AExampleField'', ''AExampleField'']
           = Some ''aexamplefield''"
    by code_simp
  from C4_option_name_resolution [of env0 "''AExampleField''"
      "snd (Parse (New ''conf'') (Some (''AExampleField: 1'' @ [NEWLINE] @ ''aexamplefield: 2'')))"]
  show ?thesis
    by (simp only: f option.case)
qed

text \<open>
  Claim C2. A field of kind struct whose option name is an item of the global section,
  and not a registered section, does not make \<^verbatim>\<open>Load\<close> fail: \<^verbatim>\<open>loadField\<close> drops the error
  of \<^verbatim>\<open>conf.Section\<close>, the current section stays the global one, and the fields of the
  nested struct are filled from the global items. Here the file is the two lines
  \<^verbatim>\<open>inner: 5\<close> and \<^verbatim>\<open>val: 7\<close> and the target is \<^verbatim>\<open>struct { Inner struct { Val int } }\<close>.
\<close>

theorem C2_unregistered_section_is_not_reported:
  "fst (Parse (New ''conf'') (Some (''inner: 5'' @ [NEWLINE] @ ''val: 7'' @ [NEWLINE]))) = None
   \<and> \<not> HasSection (snd (Parse (New ''conf'')
           (Some (''inner: 5'' @ [NEWLINE] @ ''val: 7'' @ [NEWLINE])))) ''inner''
   \<and> parseConfigOptName env0 ''Inner'' (snd (Parse (New ''conf'')
           (Some (''inner: 5'' @ [NEWLINE] @ ''val: 7'' @ [NEWLINE])))) = ''inner''
   \<and> fst (Section ''inner'' (snd (Parse (New ''conf'')
           (Some (''inner: 5'' @ [NEWLINE] @ ''val: 7'' @ [NEWLINE]))))) = Some (NoSection ''inner'')
   \<and> Load env0
         [StructField ''Inner'' True (StructV [StructField ''Val'' True (IntV KInt 0)])]
         ''conf'' (Some (''inner: 5'' @ [NEWLINE] @ ''val: 7'' @ [NEWLINE]))
       = (None, [StructField ''Inner'' True (StructV [StructField ''Val'' True (IntV KInt 7)])])"
proof -
  have a: "fst (Parse (New ''conf'') (Some (''inner: 5'' @ [NEWLINE] @ ''val: 7'' @ [NEWLINE]))) = None"
    by code_simp
  have b: "\<not> HasSection (snd (Parse (New ''conf'')
           (Some (''inner: 5'' @ [NEWLINE] @ ''val: 7'' @ [NEWLINE])))) ''inner''"
    by code_simp
  have c: "parseConfigOptName env0 ''Inner'' (snd (Parse (New ''conf'')
           (Some (''inner: 5'' @ [NEWLINE] @ ''val: 7'' @ [NEWLINE])))) = ''inner''"
    by code_simp
  have d: "fst (Section ''inner'' (snd (Parse (New ''conf'')
           (Some (''inner: 5'' @ [NEWLINE] @ ''val: 7'' @ [NEWLINE]))))) = Some (NoSection ''inner'')"
    by code_simp
  have e: "Load env0
         [StructField ''Inner'' True (StructV [StructField ''Val'' True (IntV KInt 0)])]
         ''conf'' (Some (''inner: 5'' @ [NEWLINE] @ ''val: 7'' @ [NEWLINE]))
       = (None, [StructField ''Inner'' True (StructV [StructField ''Val'' True (IntV KInt 7)])])"
    by code_simp
  from a b c d e show ?thesis by blast
qed

end
